theory Spec2Isabelle
  imports Complex_Main "HOL-Library.Word"
begin

unbundle bit_operations_syntax

section \<open>The IST8308 magnetometer driver (IST8308.cpp)\<close>

text \<open>
  A shallow embedding of \<^verbatim>\<open>src/drivers/magnetometer/isentek/ist8308/IST8308.cpp\<close>.
  The driver object is a record; every member function takes the record and returns it
  updated. The collaborators the driver calls (bus transport, monotonic clock, work-queue
  scheduler, measurement sink, performance counters) are not part of the file: the bus
  and the clock are functions handed in as a \<open>platform\<close>, over an environment of any
  type, and the calls on the scheduler and on the sink are recorded in call order.
  The constants of \<^verbatim>\<open>IST8308.hpp\<close> and of the register header (register
  addresses, bit masks, the configuration table) are handed in as a \<open>header\<close>.
  Log output (\<^verbatim>\<open>PX4_ERR\<close>, \<^verbatim>\<open>PX4_DEBUG\<close>) has no effect on the driver and is left out.
\<close>

subsection \<open>Data\<close>

type_synonym u8 = "8 word"
type_synonym int16_t = "16 word"
type_synonym hrt_abstime = "64 word"

text \<open>\<^verbatim>\<open>enum class STATE\<close>, as the \<^verbatim>\<open>switch\<close> of \<^verbatim>\<open>Run\<close> lists it.\<close>

datatype STATE = RESET | WAIT_FOR_RESET | CONFIGURE | READ | REQUEST_STOP | STOPPED

text \<open>\<^verbatim>\<open>struct register_config_t\<close>: a register and the bits to find set and cleared there.\<close>

record register_config_t =
  reg :: u8
  set_bits :: u8
  clear_bits :: u8

text \<open>The \<^verbatim>\<open>struct TransferBuffer\<close> local to the READ branch of \<^verbatim>\<open>Run\<close>.\<close>

record TransferBuffer =
  STAT :: u8
  DATAXL :: u8
  DATAXH :: u8
  DATAYL :: u8
  DATAYH :: u8
  DATAZL :: u8
  DATAZH :: u8

text \<open>
  What the source takes from its headers. \<open>register_cfg\<close> is \<^verbatim>\<open>_register_cfg\<close>, an array
  of \<^verbatim>\<open>size_register_cfg\<close> entries; \<open>notify_default\<close> is the default of the second
  parameter of \<^verbatim>\<open>RegisterCheck\<close>.
\<close>

record header =
  Register_WAI :: u8
  Register_CNTL3 :: u8
  Register_STAT :: u8
  DIR_READ :: u8
  Device_ID :: u8
  CNTL3_BIT_SRST :: u8
  STAT_BIT_DRDY :: u8
  register_cfg :: "register_config_t list"
  notify_default :: bool

definition size_register_cfg :: "header \<Rightarrow> nat" where
  "size_register_cfg h = length (register_cfg h)"

text \<open>
  The bus and the clock, over an environment \<open>'e\<close> (the device, the wire, the time):
  \<^item> \<open>transfer_exchange\<close> is \<^verbatim>\<open>transfer(cmd, cmd, sizeof(cmd))\<close> on a two-byte buffer: the
    bytes sent, and the buffer's content afterwards (the callers drop the status);
  \<^item> \<open>transfer_receive\<close> is \<^verbatim>\<open>transfer(&cmd, 1, (uint8_t *)&buffer, sizeof(buffer))\<close>:
    the command byte, the receive buffer before, and whether the status was
    \<^verbatim>\<open>PX4_OK\<close> with the receive buffer afterwards;
  \<^item> \<open>clock\<close> is \<^verbatim>\<open>hrt_absolute_time()\<close>, in microseconds.
\<close>

record 'e platform =
  transfer_exchange :: "'e \<Rightarrow> u8 \<times> u8 \<Rightarrow> (u8 \<times> u8) \<times> 'e"
  transfer_receive :: "'e \<Rightarrow> u8 \<Rightarrow> TransferBuffer \<Rightarrow> (bool \<times> TransferBuffer) \<times> 'e"
  clock :: "'e \<Rightarrow> hrt_abstime \<times> 'e"

text \<open>Calls on the bus, the scheduler and the sink, as the driver makes them.\<close>

datatype bus_call =
  Exchange "u8 \<times> u8" "u8 \<times> u8"
  | Receive u8 bool TransferBuffer

datatype sched_call =
  ScheduleNow
  | ScheduleDelayed nat
  | ScheduleOnInterval nat nat
  | ScheduleClear

text \<open>
  The sink takes \<^verbatim>\<open>float\<close>s. Every \<^verbatim>\<open>int16_t\<close> is a \<^verbatim>\<open>float\<close> exactly, so the
  arguments of \<^verbatim>\<open>update\<close> are the reals of the same value; the scale handed to
  \<^verbatim>\<open>set_scale\<close> is kept as the real number the source's expression denotes.
\<close>

datatype sink_call =
  Set_scale real
  | Set_temperature_NAN
  | Update hrt_abstime real real real

text \<open>
  The driver object. \<open>bus_log\<close>, \<open>sched_log\<close> and \<open>px4_mag\<close> hold the calls made so far;
  \<open>health_log\<close> holds the indices of \<^verbatim>\<open>_register_cfg\<close> that the READ branch handed to
  \<^verbatim>\<open>RegisterCheck\<close>; the three \<open>perf\<close> fields count the events of the performance counters.
\<close>

record 'e IST8308 =
  state :: STATE
  reset_timestamp :: hrt_abstime
  last_config_check_timestamp :: hrt_abstime
  checked_register :: nat
  transfer_perf :: nat
  bad_register_perf :: nat
  bad_transfer_perf :: nat
  env :: 'e
  bus_log :: "bus_call list"
  sched_log :: "sched_call list"
  px4_mag :: "sink_call list"
  health_log :: "nat list"

subsection \<open>Helpers of the file and of the platform\<close>

text \<open>
  \<^verbatim>\<open>static constexpr int16_t combine(uint8_t msb, uint8_t lsb) { return (msb << 8u) | lsb; }\<close>
  Both bytes are promoted to \<^verbatim>\<open>int\<close>, where the shift and the or cannot overflow; the
  \<^verbatim>\<open>return\<close> narrows the \<^verbatim>\<open>int\<close> to 16 bits.
\<close>

definition combine :: "u8 \<Rightarrow> u8 \<Rightarrow> int16_t" where
  "combine msb lsb = word_of_int (push_bit 8 (uint msb) OR uint lsb)"

text \<open>The literals of \<^verbatim>\<open>time_literals\<close>: \<^verbatim>\<open>50_ms\<close> is 50000 microseconds.\<close>

definition ms :: "nat \<Rightarrow> nat" where
  "ms n = n * 1000"

definition hrt_absolute_time :: "'e platform \<Rightarrow> 'e IST8308 \<Rightarrow> hrt_abstime \<times> 'e IST8308" where
  "hrt_absolute_time p d = (case clock p (env d) of (t, e) \<Rightarrow> (t, d\<lparr>env := e\<rparr>))"

text \<open>
  Modelled from the spec: \<^verbatim>\<open>hrt_elapsed_time\<close> is the platform's, not the file's; it is
  the "elapsed-time computation" of the monotonic clock, the time now minus the time
  given, in unsigned 64-bit microseconds.
\<close>

definition hrt_elapsed_time :: "'e platform \<Rightarrow> hrt_abstime \<Rightarrow> 'e IST8308 \<Rightarrow> hrt_abstime \<times> 'e IST8308" where
  "hrt_elapsed_time p then_time d = (case hrt_absolute_time p d of (t, d') \<Rightarrow> (t - then_time, d'))"

definition schedule :: "sched_call \<Rightarrow> 'e IST8308 \<Rightarrow> 'e IST8308" where
  "schedule c d = d\<lparr>sched_log := sched_log d @ [c]\<rparr>"

definition sink :: "sink_call \<Rightarrow> 'e IST8308 \<Rightarrow> 'e IST8308" where
  "sink c d = d\<lparr>px4_mag := px4_mag d @ [c]\<rparr>"

subsection \<open>Register access\<close>

text \<open>
  \<^verbatim>\<open>RegisterRead\<close>: the buffer is \<^verbatim>\<open>{reg | DIR_READ, 0}\<close>, and the answer is its second
  byte after the transfer.
\<close>

definition RegisterRead :: "'e platform \<Rightarrow> header \<Rightarrow> u8 \<Rightarrow> 'e IST8308 \<Rightarrow> u8 \<times> 'e IST8308" where
  "RegisterRead p h r d =
     (let cmd = (r OR DIR_READ h, 0) in
      case transfer_exchange p (env d) cmd of
        (cmd', e) \<Rightarrow> (snd cmd', d\<lparr>env := e, bus_log := bus_log d @ [Exchange cmd cmd']\<rparr>))"

definition RegisterWrite :: "'e platform \<Rightarrow> u8 \<Rightarrow> u8 \<Rightarrow> 'e IST8308 \<Rightarrow> 'e IST8308" where
  "RegisterWrite p r v d =
     (let cmd = (r, v) in
      case transfer_exchange p (env d) cmd of
        (cmd', e) \<Rightarrow> d\<lparr>env := e, bus_log := bus_log d @ [Exchange cmd cmd']\<rparr>)"

definition RegisterSetAndClearBits :: "'e platform \<Rightarrow> header \<Rightarrow> u8 \<Rightarrow> u8 \<Rightarrow> u8 \<Rightarrow> 'e IST8308 \<Rightarrow> 'e IST8308" where
  "RegisterSetAndClearBits p h r setbits clearbits d =
     (case RegisterRead p h r d of
        (orig_val, d1) \<Rightarrow>
          (let val0 = orig_val;
               val1 = (if setbits \<noteq> 0 then val0 OR setbits else val0);
               val2 = (if clearbits \<noteq> 0 then val1 AND NOT clearbits else val1)
           in RegisterWrite p r val2 d1))"

definition RegisterSetBits :: "'e platform \<Rightarrow> header \<Rightarrow> u8 \<Rightarrow> u8 \<Rightarrow> 'e IST8308 \<Rightarrow> 'e IST8308" where
  "RegisterSetBits p h r setbits d = RegisterSetAndClearBits p h r setbits 0 d"

definition RegisterClearBits :: "'e platform \<Rightarrow> header \<Rightarrow> u8 \<Rightarrow> u8 \<Rightarrow> 'e IST8308 \<Rightarrow> 'e IST8308" where
  "RegisterClearBits p h r clearbits d = RegisterSetAndClearBits p h r 0 clearbits d"

text \<open>
  \<^verbatim>\<open>RegisterCheck\<close>: one read; the entry fails when it names bits to set and none of
  them is set in the value read, or names bits to clear and one of them is set. A failed
  entry is written back through \<^verbatim>\<open>RegisterSetAndClearBits\<close>, and the answer is still the
  failure.
\<close>

definition RegisterCheck :: "'e platform \<Rightarrow> header \<Rightarrow> register_config_t \<Rightarrow> bool \<Rightarrow> 'e IST8308 \<Rightarrow> bool \<times> 'e IST8308" where
  "RegisterCheck p h reg_cfg notify d =
     (case RegisterRead p h (reg reg_cfg) d of
        (reg_value, d1) \<Rightarrow>
          (let success0 = True;
               success1 = (if set_bits reg_cfg \<noteq> 0 \<and> \<not> (reg_value AND set_bits reg_cfg \<noteq> 0)
                           then False else success0);
               success2 = (if clear_bits reg_cfg \<noteq> 0 \<and> (reg_value AND clear_bits reg_cfg \<noteq> 0)
                           then False else success1)
           in if \<not> success2
              then (let d2 = RegisterSetAndClearBits p h (reg reg_cfg) (set_bits reg_cfg) (clear_bits reg_cfg) d1;
                        d3 = (if notify then d2\<lparr>bad_register_perf := bad_register_perf d2 + 1\<rparr> else d2)
                    in (success2, d3))
              else (success2, d1)))"

subsection \<open>Configure\<close>

text \<open>The \<^verbatim>\<open>for\<close> loop of \<^verbatim>\<open>Configure\<close> over the table, with the flag \<^verbatim>\<open>success\<close>.\<close>

fun Configure_loop :: "'e platform \<Rightarrow> header \<Rightarrow> register_config_t list \<Rightarrow> bool \<Rightarrow> 'e IST8308 \<Rightarrow> bool \<times> 'e IST8308" where
  "Configure_loop p h [] success d = (success, d)"
| "Configure_loop p h (r # rs) success d =
     (case RegisterCheck p h r (notify_default h) d of
        (ok, d1) \<Rightarrow> Configure_loop p h rs (if \<not> ok then False else success) d1)"

text \<open>The scale of \<^verbatim>\<open>Configure\<close>: \<^verbatim>\<open>1.f / 6.6f * 0.01f\<close>, 6.6 LSB per microtesla.\<close>

definition mag_scale :: real where
  "mag_scale = 1 / 6.6 * 0.01"

definition Configure :: "'e platform \<Rightarrow> header \<Rightarrow> 'e IST8308 \<Rightarrow> bool \<times> 'e IST8308" where
  "Configure p h d =
     (case Configure_loop p h (register_cfg h) True d of
        (success, d1) \<Rightarrow> (success, sink Set_temperature_NAN (sink (Set_scale mag_scale) d1)))"

subsection \<open>The step function\<close>

definition Run_RESET :: "'e platform \<Rightarrow> header \<Rightarrow> 'e IST8308 \<Rightarrow> 'e IST8308" where
  "Run_RESET p h d =
     (let d1 = RegisterSetBits p h (Register_CNTL3 h) (CNTL3_BIT_SRST h) d in
      case hrt_absolute_time p d1 of
        (t, d2) \<Rightarrow> schedule (ScheduleDelayed (ms 50)) (d2\<lparr>reset_timestamp := t, state := WAIT_FOR_RESET\<rparr>))"

text \<open>
  The condition of the WAIT_FOR_RESET branch; \<^verbatim>\<open>&&\<close> reads \<^verbatim>\<open>CNTL3\<close> only when the
  identity matched.
\<close>

definition reset_complete :: "'e platform \<Rightarrow> header \<Rightarrow> 'e IST8308 \<Rightarrow> bool \<times> 'e IST8308" where
  "reset_complete p h d =
     (case RegisterRead p h (Register_WAI h) d of
        (wai, d1) \<Rightarrow>
          if wai = Device_ID h
          then (case RegisterRead p h (Register_CNTL3 h) d1 of
                  (cntl3, d2) \<Rightarrow> (cntl3 AND CNTL3_BIT_SRST h = 0, d2))
          else (False, d1))"

definition Run_WAIT_FOR_RESET :: "'e platform \<Rightarrow> header \<Rightarrow> 'e IST8308 \<Rightarrow> 'e IST8308" where
  "Run_WAIT_FOR_RESET p h d =
     (case reset_complete p h d of
        (done, d1) \<Rightarrow>
          if done then schedule ScheduleNow (d1\<lparr>state := CONFIGURE\<rparr>)
          else (case hrt_elapsed_time p (reset_timestamp d1) d1 of
                  (elapsed, d2) \<Rightarrow>
                    if elapsed > of_nat (ms 100)
                    then schedule ScheduleNow (d2\<lparr>state := RESET\<rparr>)
                    else schedule (ScheduleDelayed (ms 50)) d2))"

definition Run_CONFIGURE :: "'e platform \<Rightarrow> header \<Rightarrow> 'e IST8308 \<Rightarrow> 'e IST8308" where
  "Run_CONFIGURE p h d =
     (case Configure p h d of
        (success, d1) \<Rightarrow>
          if success then schedule (ScheduleOnInterval (ms 20) (ms 20)) (d1\<lparr>state := READ\<rparr>)
          else schedule (ScheduleDelayed (ms 50)) d1)"

text \<open>\<^verbatim>\<open>buffer{}\<close>: the receive buffer starts zeroed.\<close>

definition zero_buffer :: TransferBuffer where
  "zero_buffer = \<lparr>STAT = 0, DATAXL = 0, DATAXH = 0, DATAYL = 0, DATAYH = 0, DATAZL = 0, DATAZH = 0\<rparr>"

text \<open>
  The first half of the READ branch: the timestamp, the transfer of the seven bytes from
  \<^verbatim>\<open>STAT\<close> on, the count of a failed transfer, and the sample handed to the sink. The
  condition is the source's \<^verbatim>\<open>buffer.STAT && STAT_BIT::DRDY\<close>, the logical and of two
  values read as booleans. The answer is \<^verbatim>\<open>failure\<close>, \<^verbatim>\<open>timestamp_sample\<close> and the driver.
\<close>

definition READ_sample :: "'e platform \<Rightarrow> header \<Rightarrow> 'e IST8308 \<Rightarrow> (bool \<times> hrt_abstime) \<times> 'e IST8308" where
  "READ_sample p h d =
     (case hrt_absolute_time p d of
        (timestamp_sample, d1) \<Rightarrow>
          (let cmd = Register_STAT h in
           case transfer_receive p (env d1) cmd zero_buffer of
             ((ok, buffer), e) \<Rightarrow>
               (let d2 = d1\<lparr>env := e, bus_log := bus_log d1 @ [Receive cmd ok buffer]\<rparr>;
                    failure = \<not> ok;
                    d3 = (if \<not> ok then d2\<lparr>bad_transfer_perf := bad_transfer_perf d2 + 1\<rparr> else d2);
                    d4 = d3\<lparr>transfer_perf := transfer_perf d3 + 1\<rparr>;
                    d5 = (if STAT buffer \<noteq> 0 \<and> STAT_BIT_DRDY h \<noteq> 0
                          then (let x = real_of_int (sint (combine (DATAXH buffer) (DATAXL buffer)));
                                    y = real_of_int (sint (combine (DATAYH buffer) (DATAYL buffer)));
                                    z = real_of_int (sint (combine (DATAZH buffer) (DATAZL buffer)))
                                in sink (Update timestamp_sample x y z) d4)
                          else d4)
                in ((failure, timestamp_sample), d5))))"

text \<open>
  \<^verbatim>\<open>failure || hrt_elapsed_time(&_last_config_check_timestamp) > 100_ms\<close>: the clock is read
  only when the transfer went through.
\<close>

definition check_due :: "'e platform \<Rightarrow> bool \<Rightarrow> 'e IST8308 \<Rightarrow> bool \<times> 'e IST8308" where
  "check_due p failure d =
     (if failure then (True, d)
      else (case hrt_elapsed_time p (last_config_check_timestamp d) d of
              (elapsed, d1) \<Rightarrow> (elapsed > of_nat (ms 100), d1)))"

text \<open>
  The READ branch. \<^verbatim>\<open>_register_cfg[_checked_register]\<close> past the end of the array is
  undefined behaviour in the source; here it is the answer \<open>None\<close>. So is the remainder by
  a table length of zero, which the same test covers.
\<close>

definition Run_READ :: "'e platform \<Rightarrow> header \<Rightarrow> 'e IST8308 \<Rightarrow> 'e IST8308 option" where
  "Run_READ p h d =
     (case READ_sample p h d of
        ((failure, timestamp_sample), d1) \<Rightarrow>
          (case check_due p failure d1 of
             (due, d2) \<Rightarrow>
               if due
               then (if checked_register d2 < size_register_cfg h
                     then (case RegisterCheck p h (register_cfg h ! checked_register d2) True d2 of
                             (ok, d3) \<Rightarrow>
                               (let d4 = d3\<lparr>health_log := health_log d3 @ [checked_register d2]\<rparr> in
                                if ok
                                then Some (d4\<lparr>last_config_check_timestamp := timestamp_sample,
                                                checked_register := (checked_register d4 + 1) mod size_register_cfg h\<rparr>)
                                else Some (schedule ScheduleNow (d4\<lparr>state := CONFIGURE\<rparr>))))
                     else None)
               else Some d2))"

definition Run :: "'e platform \<Rightarrow> header \<Rightarrow> 'e IST8308 \<Rightarrow> 'e IST8308 option" where
  "Run p h d =
     (case state d of
        RESET \<Rightarrow> Some (Run_RESET p h d)
      | WAIT_FOR_RESET \<Rightarrow> Some (Run_WAIT_FOR_RESET p h d)
      | CONFIGURE \<Rightarrow> Some (Run_CONFIGURE p h d)
      | READ \<Rightarrow> Run_READ p h d
      | REQUEST_STOP \<Rightarrow> Some ((schedule ScheduleClear d)\<lparr>state := STOPPED\<rparr>)
      | STOPPED \<Rightarrow> Some d)"

subsection \<open>Entry points and runs\<close>

definition Reset :: "'e IST8308 \<Rightarrow> 'e IST8308" where
  "Reset d = schedule ScheduleNow (schedule ScheduleClear (d\<lparr>state := RESET\<rparr>))"

text \<open>One turn of the loop of \<^verbatim>\<open>Stop\<close>, up to the sleep: the store and the request.\<close>

definition Stop_request :: "'e IST8308 \<Rightarrow> 'e IST8308" where
  "Stop_request d = schedule ScheduleNow (d\<lparr>state := REQUEST_STOP\<rparr>)"

text \<open>\<open>k\<close> invocations of the step function in a row, as the scheduler delivers them.\<close>

fun Run_n :: "'e platform \<Rightarrow> header \<Rightarrow> nat \<Rightarrow> 'e IST8308 \<Rightarrow> 'e IST8308 option" where
  "Run_n p h 0 d = Some d"
| "Run_n p h (Suc k) d = (case Run p h d of None \<Rightarrow> None | Some d' \<Rightarrow> Run_n p h k d')"

text \<open>The driver is in READ before each of \<open>k\<close> invocations and after the last.\<close>

fun stays_READ :: "'e platform \<Rightarrow> header \<Rightarrow> nat \<Rightarrow> 'e IST8308 \<Rightarrow> bool" where
  "stays_READ p h 0 d = (state d = READ)"
| "stays_READ p h (Suc k) d =
     (state d = READ \<and> (case Run p h d of None \<Rightarrow> False | Some d' \<Rightarrow> stays_READ p h k d'))"

text \<open>
  What can happen to the driver object: the scheduler invokes the step function, or
  another context calls \<^verbatim>\<open>Reset\<close>, or stores the stop request as \<^verbatim>\<open>Stop\<close> does.
\<close>

datatype event = Invoke_Run | Call_Reset | Call_Stop_request

fun exec :: "'e platform \<Rightarrow> header \<Rightarrow> event list \<Rightarrow> 'e IST8308 \<Rightarrow> 'e IST8308 option" where
  "exec p h [] d = Some d"
| "exec p h (Invoke_Run # es) d = (case Run p h d of None \<Rightarrow> None | Some d' \<Rightarrow> exec p h es d')"
| "exec p h (Call_Reset # es) d = exec p h es (Reset d)"
| "exec p h (Call_Stop_request # es) d = exec p h es (Stop_request d)"

subsection \<open>Views of the code used in the statements\<close>

text \<open>
  The two tests of \<^verbatim>\<open>RegisterCheck\<close> on the value read: the entry passes when neither
  \<^verbatim>\<open>if\<close> clears \<^verbatim>\<open>success\<close>.
\<close>

definition verifies :: "register_config_t \<Rightarrow> u8 \<Rightarrow> bool" where
  "verifies reg_cfg reg_value =
     (\<not> (set_bits reg_cfg \<noteq> 0 \<and> \<not> (reg_value AND set_bits reg_cfg \<noteq> 0)) \<and>
      \<not> (clear_bits reg_cfg \<noteq> 0 \<and> (reg_value AND clear_bits reg_cfg \<noteq> 0)))"

text \<open>What \<^verbatim>\<open>RegisterCheck\<close> answers for each entry in one pass of the loop of \<^verbatim>\<open>Configure\<close>.\<close>

fun pass_verdicts :: "'e platform \<Rightarrow> header \<Rightarrow> register_config_t list \<Rightarrow> 'e IST8308 \<Rightarrow> bool list" where
  "pass_verdicts p h [] d = []"
| "pass_verdicts p h (r # rs) d =
     fst (RegisterCheck p h r (notify_default h) d)
       # pass_verdicts p h rs (snd (RegisterCheck p h r (notify_default h) d))"

text \<open>
  The READ branch in pieces: the time it stamps the sample with, what the bus answers to
  its seven-byte read (the status and the buffer), whether it goes on to check a
  register, and the driver as it stands before that check.
\<close>

definition READ_timestamp :: "'e platform \<Rightarrow> 'e IST8308 \<Rightarrow> hrt_abstime" where
  "READ_timestamp p d = fst (clock p (env d))"

definition READ_answer :: "'e platform \<Rightarrow> header \<Rightarrow> 'e IST8308 \<Rightarrow> bool \<times> TransferBuffer" where
  "READ_answer p h d = fst (transfer_receive p (snd (clock p (env d))) (Register_STAT h) zero_buffer)"

definition READ_due :: "'e platform \<Rightarrow> header \<Rightarrow> 'e IST8308 \<Rightarrow> bool" where
  "READ_due p h d = fst (check_due p (fst (fst (READ_sample p h d))) (snd (READ_sample p h d)))"

definition READ_before_check :: "'e platform \<Rightarrow> header \<Rightarrow> 'e IST8308 \<Rightarrow> 'e IST8308" where
  "READ_before_check p h d = snd (check_due p (fst (fst (READ_sample p h d))) (snd (READ_sample p h d)))"

text \<open>
  Of \<open>k\<close> invocations in a row, the number on which the READ branch goes on to check a
  register; and the indices \<open>c\<close>, \<open>c + 1\<close>, ... below \<open>n\<close>, wrapping, \<open>m\<close> of them.
\<close>

fun checks_due :: "'e platform \<Rightarrow> header \<Rightarrow> nat \<Rightarrow> 'e IST8308 \<Rightarrow> nat" where
  "checks_due p h 0 d = 0"
| "checks_due p h (Suc k) d =
     (if READ_due p h d then 1 else 0)
       + (case Run p h d of None \<Rightarrow> 0 | Some d' \<Rightarrow> checks_due p h k d')"

definition round_robin :: "nat \<Rightarrow> nat \<Rightarrow> nat \<Rightarrow> nat list" where
  "round_robin n c m = map (\<lambda>i. (c + i) mod n) [0..<m]"

subsection \<open>A simulated device\<close>

text \<open>
  A bus with a register file behind it, a clock that moves on by \<open>sim_tick\<close> at each
  reading, and a fixed answer to the seven-byte read: the inputs of the examples below.
\<close>

record sim =
  sim_regs :: "u8 \<Rightarrow> u8"
  sim_time :: hrt_abstime
  sim_tick :: hrt_abstime
  sim_status :: bool
  sim_buffer :: TransferBuffer

definition sim_header :: header where
  "sim_header =
     \<lparr>Register_WAI = 0x00, Register_CNTL3 = 0x32, Register_STAT = 0x10, DIR_READ = 0x80,
      Device_ID = 0x08, CNTL3_BIT_SRST = 0x01, STAT_BIT_DRDY = 0x01,
      register_cfg = [\<lparr>reg = 0x20, set_bits = 0, clear_bits = 0x02\<rparr>,
                      \<lparr>reg = 0x30, set_bits = 0x20, clear_bits = 0\<rparr>],
      notify_default = False\<rparr>"

definition sim_platform :: "sim platform" where
  "sim_platform =
     \<lparr>transfer_exchange = (\<lambda>e cmd.
         if fst cmd AND 0x80 \<noteq> 0 then ((fst cmd, sim_regs e (fst cmd AND 0x7F)), e)
         else (cmd, e\<lparr>sim_regs := (sim_regs e)(fst cmd := snd cmd)\<rparr>)),
      transfer_receive = (\<lambda>e cmd buffer. ((sim_status e, sim_buffer e), e)),
      clock = (\<lambda>e. (sim_time e, e\<lparr>sim_time := sim_time e + sim_tick e\<rparr>))\<rparr>"

definition sim_driver :: "STATE \<Rightarrow> sim \<Rightarrow> sim IST8308" where
  "sim_driver st e =
     \<lparr>state = st, reset_timestamp = 0, last_config_check_timestamp = 0, checked_register = 0,
      transfer_perf = 0, bad_register_perf = 0, bad_transfer_perf = 0, env = e,
      bus_log = [], sched_log = [], px4_mag = [], health_log = []\<rparr>"

text \<open>Registers as the table wants them, identity right, reset bit clear.\<close>

definition regs_good :: "u8 \<Rightarrow> u8" where
  "regs_good r = (if r = 0x00 then 0x08 else if r = 0x30 then 0x20 else 0)"

text \<open>The same with register \<open>0x30\<close> lost.\<close>

definition regs_drifted :: "u8 \<Rightarrow> u8" where
  "regs_drifted r = (if r = 0x00 then 0x08 else 0)"

definition sample_buffer :: "u8 \<Rightarrow> TransferBuffer" where
  "sample_buffer st =
     \<lparr>STAT = st, DATAXL = 0x02, DATAXH = 0x01, DATAYL = 0xFF, DATAYH = 0xFF, DATAZL = 0x00, DATAZH = 0x80\<rparr>"

definition sim_env :: "(u8 \<Rightarrow> u8) \<Rightarrow> bool \<Rightarrow> u8 \<Rightarrow> sim" where
  "sim_env regs ok st =
     \<lparr>sim_regs = regs, sim_time = 1000000, sim_tick = 10000, sim_status = ok,
      sim_buffer = sample_buffer st\<rparr>"

text \<open>Register \<open>0x20\<close> with the bit set that the table wants clear.\<close>

definition regs_suspended :: "u8 \<Rightarrow> u8" where
  "regs_suspended r = (if r = 0x00 then 0x08 else if r = 0x20 then 0x02 else if r = 0x30 then 0x20 else 0)"

section \<open>Properties\<close>

subsection \<open>What the register functions leave alone\<close>

lemma RegisterRead_frame [simp]:
  "state (snd (RegisterRead p h r d)) = state d"
  "reset_timestamp (snd (RegisterRead p h r d)) = reset_timestamp d"
  "last_config_check_timestamp (snd (RegisterRead p h r d)) = last_config_check_timestamp d"
  "checked_register (snd (RegisterRead p h r d)) = checked_register d"
  "transfer_perf (snd (RegisterRead p h r d)) = transfer_perf d"
  "bad_register_perf (snd (RegisterRead p h r d)) = bad_register_perf d"
  "bad_transfer_perf (snd (RegisterRead p h r d)) = bad_transfer_perf d"
  "sched_log (snd (RegisterRead p h r d)) = sched_log d"
  "px4_mag (snd (RegisterRead p h r d)) = px4_mag d"
  "health_log (snd (RegisterRead p h r d)) = health_log d"
  by (simp_all add: RegisterRead_def Let_def case_prod_beta)

lemma RegisterRead_bus_log:
  "bus_log (snd (RegisterRead p h r d)) =
     bus_log d @ [Exchange (r OR DIR_READ h, 0) (fst (transfer_exchange p (env d) (r OR DIR_READ h, 0)))]"
  "fst (RegisterRead p h r d) = snd (fst (transfer_exchange p (env d) (r OR DIR_READ h, 0)))"
  by (simp_all add: RegisterRead_def Let_def case_prod_beta)

lemma RegisterWrite_frame [simp]:
  "state (RegisterWrite p r v d) = state d"
  "reset_timestamp (RegisterWrite p r v d) = reset_timestamp d"
  "last_config_check_timestamp (RegisterWrite p r v d) = last_config_check_timestamp d"
  "checked_register (RegisterWrite p r v d) = checked_register d"
  "transfer_perf (RegisterWrite p r v d) = transfer_perf d"
  "bad_register_perf (RegisterWrite p r v d) = bad_register_perf d"
  "bad_transfer_perf (RegisterWrite p r v d) = bad_transfer_perf d"
  "sched_log (RegisterWrite p r v d) = sched_log d"
  "px4_mag (RegisterWrite p r v d) = px4_mag d"
  "health_log (RegisterWrite p r v d) = health_log d"
  by (simp_all add: RegisterWrite_def Let_def case_prod_beta)

lemma RegisterWrite_bus_log:
  "bus_log (RegisterWrite p r v d) =
     bus_log d @ [Exchange (r, v) (fst (transfer_exchange p (env d) (r, v)))]"
  by (simp add: RegisterWrite_def Let_def case_prod_beta)

lemma RegisterSetAndClearBits_value:
  "(let val0 = v; val1 = (if s \<noteq> 0 then val0 OR s else val0);
        val2 = (if c \<noteq> 0 then val1 AND NOT c else val1) in val2) = (v OR s) AND NOT (c::u8)"
  by (simp add: Let_def)

lemma RegisterSetAndClearBits_eq:
  "RegisterSetAndClearBits p h r s c d =
     RegisterWrite p r ((fst (RegisterRead p h r d) OR s) AND NOT c) (snd (RegisterRead p h r d))"
  by (simp add: RegisterSetAndClearBits_def case_prod_beta Let_def)

lemma RegisterSetAndClearBits_frame [simp]:
  "state (RegisterSetAndClearBits p h r s c d) = state d"
  "reset_timestamp (RegisterSetAndClearBits p h r s c d) = reset_timestamp d"
  "last_config_check_timestamp (RegisterSetAndClearBits p h r s c d) = last_config_check_timestamp d"
  "checked_register (RegisterSetAndClearBits p h r s c d) = checked_register d"
  "transfer_perf (RegisterSetAndClearBits p h r s c d) = transfer_perf d"
  "bad_register_perf (RegisterSetAndClearBits p h r s c d) = bad_register_perf d"
  "bad_transfer_perf (RegisterSetAndClearBits p h r s c d) = bad_transfer_perf d"
  "sched_log (RegisterSetAndClearBits p h r s c d) = sched_log d"
  "px4_mag (RegisterSetAndClearBits p h r s c d) = px4_mag d"
  "health_log (RegisterSetAndClearBits p h r s c d) = health_log d"
  by (simp_all add: RegisterSetAndClearBits_eq)

lemma RegisterCheck_fst:
  "fst (RegisterCheck p h c n d) = verifies c (fst (RegisterRead p h (reg c) d))"
  by (auto simp add: RegisterCheck_def verifies_def Let_def case_prod_beta)

lemma RegisterCheck_snd:
  "snd (RegisterCheck p h c n d) =
    (if verifies c (fst (RegisterRead p h (reg c) d)) then snd (RegisterRead p h (reg c) d)
     else (let d2 = RegisterSetAndClearBits p h (reg c) (set_bits c) (clear_bits c) (snd (RegisterRead p h (reg c) d))
           in if n then d2\<lparr>bad_register_perf := bad_register_perf d2 + 1\<rparr> else d2))"
  by (auto simp add: RegisterCheck_def verifies_def Let_def case_prod_beta)

lemma RegisterCheck_frame [simp]:
  "state (snd (RegisterCheck p h c n d)) = state d"
  "reset_timestamp (snd (RegisterCheck p h c n d)) = reset_timestamp d"
  "last_config_check_timestamp (snd (RegisterCheck p h c n d)) = last_config_check_timestamp d"
  "checked_register (snd (RegisterCheck p h c n d)) = checked_register d"
  "transfer_perf (snd (RegisterCheck p h c n d)) = transfer_perf d"
  "bad_transfer_perf (snd (RegisterCheck p h c n d)) = bad_transfer_perf d"
  "sched_log (snd (RegisterCheck p h c n d)) = sched_log d"
  "px4_mag (snd (RegisterCheck p h c n d)) = px4_mag d"
  "health_log (snd (RegisterCheck p h c n d)) = health_log d"
  by (simp_all add: RegisterCheck_snd Let_def)

lemma Configure_loop_frame [simp]:
  "state (snd (Configure_loop p h rs s d)) = state d"
  "reset_timestamp (snd (Configure_loop p h rs s d)) = reset_timestamp d"
  "last_config_check_timestamp (snd (Configure_loop p h rs s d)) = last_config_check_timestamp d"
  "checked_register (snd (Configure_loop p h rs s d)) = checked_register d"
  "transfer_perf (snd (Configure_loop p h rs s d)) = transfer_perf d"
  "bad_transfer_perf (snd (Configure_loop p h rs s d)) = bad_transfer_perf d"
  "sched_log (snd (Configure_loop p h rs s d)) = sched_log d"
  "px4_mag (snd (Configure_loop p h rs s d)) = px4_mag d"
  "health_log (snd (Configure_loop p h rs s d)) = health_log d"
  by (induction rs arbitrary: s d; simp add: case_prod_beta)+

lemma RegisterCheck_bus_log_failed:
  assumes "\<not> verifies c (fst (RegisterRead p h (reg c) d))"
  shows "bus_log (snd (RegisterCheck p h c n d)) =
     (let d1 = snd (RegisterRead p h (reg c) d);
          cur = fst (RegisterRead p h (reg c) d1);
          d2 = snd (RegisterRead p h (reg c) d1);
          new = (cur OR set_bits c) AND NOT (clear_bits c)
      in bus_log d
         @ [Exchange (reg c OR DIR_READ h, 0) (fst (transfer_exchange p (env d) (reg c OR DIR_READ h, 0))),
            Exchange (reg c OR DIR_READ h, 0) (fst (transfer_exchange p (env d1) (reg c OR DIR_READ h, 0))),
            Exchange (reg c, new) (fst (transfer_exchange p (env d2) (reg c, new)))])"
  using assms
  by (simp add: RegisterCheck_snd Let_def RegisterSetAndClearBits_eq RegisterWrite_bus_log RegisterRead_bus_log)

lemma RegisterCheck_bus_log_passed:
  assumes "verifies c (fst (RegisterRead p h (reg c) d))"
  shows "bus_log (snd (RegisterCheck p h c n d)) =
      bus_log d @ [Exchange (reg c OR DIR_READ h, 0) (fst (transfer_exchange p (env d) (reg c OR DIR_READ h, 0)))]"
  using assms
  by (simp add: RegisterCheck_snd Let_def RegisterRead_bus_log)

subsection \<open>Configure and the READ branch, by their parts\<close>

lemma Configure_loop_fst:
  "fst (Configure_loop p h rs s d) = (s \<and> list_all (\<lambda>b. b) (pass_verdicts p h rs d))"
  by (induction rs arbitrary: s d) (auto simp add: case_prod_beta)

lemma Configure_fst:
  "fst (Configure p h d) = list_all (\<lambda>b. b) (pass_verdicts p h (register_cfg h) d)"
  by (simp add: Configure_def case_prod_beta Configure_loop_fst)

lemma Configure_frame [simp]:
  "state (snd (Configure p h d)) = state d"
  "reset_timestamp (snd (Configure p h d)) = reset_timestamp d"
  "last_config_check_timestamp (snd (Configure p h d)) = last_config_check_timestamp d"
  "checked_register (snd (Configure p h d)) = checked_register d"
  "transfer_perf (snd (Configure p h d)) = transfer_perf d"
  "bad_transfer_perf (snd (Configure p h d)) = bad_transfer_perf d"
  "sched_log (snd (Configure p h d)) = sched_log d"
  "health_log (snd (Configure p h d)) = health_log d"
  by (simp_all add: Configure_def case_prod_beta sink_def)

lemma Configure_px4_mag:
  "px4_mag (snd (Configure p h d)) = px4_mag d @ [Set_scale mag_scale, Set_temperature_NAN]"
  by (simp add: Configure_def case_prod_beta sink_def)

lemma Run_CONFIGURE_eq:
  "Run_CONFIGURE p h d =
     (if fst (Configure p h d)
      then schedule (ScheduleOnInterval (ms 20) (ms 20)) ((snd (Configure p h d))\<lparr>state := READ\<rparr>)
      else schedule (ScheduleDelayed (ms 50)) (snd (Configure p h d)))"
  by (simp add: Run_CONFIGURE_def case_prod_beta)

lemma hrt_absolute_time_frame [simp]:
  "state (snd (hrt_absolute_time p d)) = state d"
  "reset_timestamp (snd (hrt_absolute_time p d)) = reset_timestamp d"
  "last_config_check_timestamp (snd (hrt_absolute_time p d)) = last_config_check_timestamp d"
  "checked_register (snd (hrt_absolute_time p d)) = checked_register d"
  "transfer_perf (snd (hrt_absolute_time p d)) = transfer_perf d"
  "bad_register_perf (snd (hrt_absolute_time p d)) = bad_register_perf d"
  "bad_transfer_perf (snd (hrt_absolute_time p d)) = bad_transfer_perf d"
  "bus_log (snd (hrt_absolute_time p d)) = bus_log d"
  "sched_log (snd (hrt_absolute_time p d)) = sched_log d"
  "px4_mag (snd (hrt_absolute_time p d)) = px4_mag d"
  "health_log (snd (hrt_absolute_time p d)) = health_log d"
  by (simp_all add: hrt_absolute_time_def case_prod_beta)

lemma hrt_elapsed_time_frame [simp]:
  "state (snd (hrt_elapsed_time p t d)) = state d"
  "reset_timestamp (snd (hrt_elapsed_time p t d)) = reset_timestamp d"
  "last_config_check_timestamp (snd (hrt_elapsed_time p t d)) = last_config_check_timestamp d"
  "checked_register (snd (hrt_elapsed_time p t d)) = checked_register d"
  "transfer_perf (snd (hrt_elapsed_time p t d)) = transfer_perf d"
  "bad_register_perf (snd (hrt_elapsed_time p t d)) = bad_register_perf d"
  "bad_transfer_perf (snd (hrt_elapsed_time p t d)) = bad_transfer_perf d"
  "bus_log (snd (hrt_elapsed_time p t d)) = bus_log d"
  "sched_log (snd (hrt_elapsed_time p t d)) = sched_log d"
  "px4_mag (snd (hrt_elapsed_time p t d)) = px4_mag d"
  "health_log (snd (hrt_elapsed_time p t d)) = health_log d"
  by (simp_all add: hrt_elapsed_time_def case_prod_beta)

lemma check_due_frame [simp]:
  "state (snd (check_due p f d)) = state d"
  "reset_timestamp (snd (check_due p f d)) = reset_timestamp d"
  "last_config_check_timestamp (snd (check_due p f d)) = last_config_check_timestamp d"
  "checked_register (snd (check_due p f d)) = checked_register d"
  "transfer_perf (snd (check_due p f d)) = transfer_perf d"
  "bad_register_perf (snd (check_due p f d)) = bad_register_perf d"
  "bad_transfer_perf (snd (check_due p f d)) = bad_transfer_perf d"
  "bus_log (snd (check_due p f d)) = bus_log d"
  "sched_log (snd (check_due p f d)) = sched_log d"
  "px4_mag (snd (check_due p f d)) = px4_mag d"
  "health_log (snd (check_due p f d)) = health_log d"
  by (simp_all add: check_due_def case_prod_beta)

lemma check_due_failure [simp]: "fst (check_due p True d) = True"
  by (simp add: check_due_def)

lemma READ_sample_frame [simp]:
  "state (snd (READ_sample p h d)) = state d"
  "reset_timestamp (snd (READ_sample p h d)) = reset_timestamp d"
  "last_config_check_timestamp (snd (READ_sample p h d)) = last_config_check_timestamp d"
  "checked_register (snd (READ_sample p h d)) = checked_register d"
  "bad_register_perf (snd (READ_sample p h d)) = bad_register_perf d"
  "sched_log (snd (READ_sample p h d)) = sched_log d"
  "health_log (snd (READ_sample p h d)) = health_log d"
  by (simp_all add: READ_sample_def hrt_absolute_time_def case_prod_beta Let_def sink_def)

lemma READ_sample_results:
  "fst (fst (READ_sample p h d)) = (\<not> fst (READ_answer p h d))"
  "snd (fst (READ_sample p h d)) = READ_timestamp p d"
  "bad_transfer_perf (snd (READ_sample p h d)) =
     bad_transfer_perf d + (if fst (READ_answer p h d) then 0 else 1)"
  "transfer_perf (snd (READ_sample p h d)) = transfer_perf d + 1"
  "bus_log (snd (READ_sample p h d)) =
     bus_log d @ [Receive (Register_STAT h) (fst (READ_answer p h d)) (snd (READ_answer p h d))]"
  by (simp_all add: READ_sample_def READ_answer_def READ_timestamp_def hrt_absolute_time_def
        case_prod_beta Let_def sink_def)

lemma READ_sample_px4_mag:
  "px4_mag (snd (READ_sample p h d)) =
     px4_mag d @
       (if STAT (snd (READ_answer p h d)) \<noteq> 0 \<and> STAT_BIT_DRDY h \<noteq> 0
        then [Update (READ_timestamp p d)
                (real_of_int (sint (combine (DATAXH (snd (READ_answer p h d))) (DATAXL (snd (READ_answer p h d))))))
                (real_of_int (sint (combine (DATAYH (snd (READ_answer p h d))) (DATAYL (snd (READ_answer p h d))))))
                (real_of_int (sint (combine (DATAZH (snd (READ_answer p h d))) (DATAZL (snd (READ_answer p h d))))))]
        else [])"
  by (simp add: READ_sample_def READ_answer_def READ_timestamp_def hrt_absolute_time_def
        case_prod_beta Let_def sink_def)

lemma READ_before_check_frame [simp]:
  "state (READ_before_check p h d) = state d"
  "reset_timestamp (READ_before_check p h d) = reset_timestamp d"
  "last_config_check_timestamp (READ_before_check p h d) = last_config_check_timestamp d"
  "checked_register (READ_before_check p h d) = checked_register d"
  "bad_register_perf (READ_before_check p h d) = bad_register_perf d"
  "sched_log (READ_before_check p h d) = sched_log d"
  "health_log (READ_before_check p h d) = health_log d"
  "px4_mag (READ_before_check p h d) = px4_mag (snd (READ_sample p h d))"
  "bad_transfer_perf (READ_before_check p h d) = bad_transfer_perf (snd (READ_sample p h d))"
  by (simp_all add: READ_before_check_def)

lemma Run_READ_eq:
  "Run_READ p h d =
     (let d2 = READ_before_check p h d;
          c = register_cfg h ! checked_register d;
          d3 = snd (RegisterCheck p h c True d2);
          d4 = d3\<lparr>health_log := health_log d @ [checked_register d]\<rparr>
      in if READ_due p h d
         then (if checked_register d < size_register_cfg h
               then (if fst (RegisterCheck p h c True d2)
                     then Some (d4\<lparr>last_config_check_timestamp := READ_timestamp p d,
                                     checked_register := (checked_register d + 1) mod size_register_cfg h\<rparr>)
                     else Some (schedule ScheduleNow (d4\<lparr>state := CONFIGURE\<rparr>)))
               else None)
         else Some d2)"
  by (simp add: Run_READ_def READ_due_def READ_before_check_def case_prod_beta Let_def READ_sample_results)

subsection \<open>The other branches, and the cursor\<close>

lemma schedule_frame [simp]:
  "state (schedule c d) = state d"
  "reset_timestamp (schedule c d) = reset_timestamp d"
  "last_config_check_timestamp (schedule c d) = last_config_check_timestamp d"
  "checked_register (schedule c d) = checked_register d"
  "transfer_perf (schedule c d) = transfer_perf d"
  "bad_register_perf (schedule c d) = bad_register_perf d"
  "bad_transfer_perf (schedule c d) = bad_transfer_perf d"
  "bus_log (schedule c d) = bus_log d"
  "sched_log (schedule c d) = sched_log d @ [c]"
  "px4_mag (schedule c d) = px4_mag d"
  "health_log (schedule c d) = health_log d"
  by (simp_all add: schedule_def)

lemma reset_complete_fst:
  "fst (reset_complete p h d) =
     (fst (RegisterRead p h (Register_WAI h) d) = Device_ID h \<and>
      fst (RegisterRead p h (Register_CNTL3 h) (snd (RegisterRead p h (Register_WAI h) d))) AND CNTL3_BIT_SRST h = 0)"
  by (simp add: reset_complete_def case_prod_beta)

lemma reset_complete_snd:
  "snd (reset_complete p h d) =
     (if fst (RegisterRead p h (Register_WAI h) d) = Device_ID h
      then snd (RegisterRead p h (Register_CNTL3 h) (snd (RegisterRead p h (Register_WAI h) d)))
      else snd (RegisterRead p h (Register_WAI h) d))"
  by (simp add: reset_complete_def case_prod_beta)

lemma reset_complete_frame [simp]:
  "state (snd (reset_complete p h d)) = state d"
  "reset_timestamp (snd (reset_complete p h d)) = reset_timestamp d"
  "last_config_check_timestamp (snd (reset_complete p h d)) = last_config_check_timestamp d"
  "checked_register (snd (reset_complete p h d)) = checked_register d"
  "sched_log (snd (reset_complete p h d)) = sched_log d"
  "px4_mag (snd (reset_complete p h d)) = px4_mag d"
  "health_log (snd (reset_complete p h d)) = health_log d"
  by (simp_all add: reset_complete_snd)

lemma Run_WAIT_FOR_RESET_eq:
  "Run_WAIT_FOR_RESET p h d =
     (let d1 = snd (reset_complete p h d) in
      if fst (reset_complete p h d) then schedule ScheduleNow (d1\<lparr>state := CONFIGURE\<rparr>)
      else if fst (hrt_elapsed_time p (reset_timestamp d) d1) > 100000
           then schedule ScheduleNow ((snd (hrt_elapsed_time p (reset_timestamp d) d1))\<lparr>state := RESET\<rparr>)
           else schedule (ScheduleDelayed 50000) (snd (hrt_elapsed_time p (reset_timestamp d) d1)))"
  by (simp add: Run_WAIT_FOR_RESET_def case_prod_beta Let_def ms_def)

lemma Run_RESET_frame [simp]:
  "checked_register (Run_RESET p h d) = checked_register d"
  "health_log (Run_RESET p h d) = health_log d"
  "state (Run_RESET p h d) = WAIT_FOR_RESET"
  by (simp_all add: Run_RESET_def case_prod_beta Let_def RegisterSetBits_def)

lemma Run_WAIT_FOR_RESET_frame [simp]:
  "checked_register (Run_WAIT_FOR_RESET p h d) = checked_register d"
  "health_log (Run_WAIT_FOR_RESET p h d) = health_log d"
  by (simp_all add: Run_WAIT_FOR_RESET_eq Let_def)

lemma Run_CONFIGURE_frame [simp]:
  "checked_register (Run_CONFIGURE p h d) = checked_register d"
  "health_log (Run_CONFIGURE p h d) = health_log d"
  by (simp_all add: Run_CONFIGURE_eq)

text \<open>One READ invocation, seen from the cursor.\<close>

lemma Run_READ_cursor:
  assumes "checked_register d < size_register_cfg h" and "state d = READ"
  shows "\<exists>d'. Run_READ p h d = Some d' \<and>
     health_log d' = health_log d @ (if READ_due p h d then [checked_register d] else []) \<and>
     state d' = (if READ_due p h d \<and>
                    \<not> fst (RegisterCheck p h (register_cfg h ! checked_register d) True (READ_before_check p h d))
                 then CONFIGURE else READ) \<and>
     checked_register d' =
       (if READ_due p h d \<and>
           fst (RegisterCheck p h (register_cfg h ! checked_register d) True (READ_before_check p h d))
        then (checked_register d + 1) mod size_register_cfg h else checked_register d)"
  using assms by (simp add: Run_READ_eq Let_def)

lemma Run_cursor_step:
  assumes "checked_register d < size_register_cfg h"
  shows "\<exists>d'. Run p h d = Some d' \<and> checked_register d' < size_register_cfg h \<and>
           (checked_register d' = checked_register d \<or>
            checked_register d' = (checked_register d + 1) mod size_register_cfg h) \<and>
           (if state d = READ \<and> state d' = READ \<and> health_log d' \<noteq> health_log d
            then checked_register d' = (checked_register d + 1) mod size_register_cfg h
            else checked_register d' = checked_register d)"
proof (cases "state d")
  case READ
  from Run_READ_cursor [OF assms READ, of p]
  obtain d' where r: "Run_READ p h d = Some d'"
     and hl: "health_log d' = health_log d @ (if READ_due p h d then [checked_register d] else [])"
     and st: "state d' = (if READ_due p h d \<and>
                    \<not> fst (RegisterCheck p h (register_cfg h ! checked_register d) True (READ_before_check p h d))
                 then CONFIGURE else READ)"
     and cr: "checked_register d' =
       (if READ_due p h d \<and>
           fst (RegisterCheck p h (register_cfg h ! checked_register d) True (READ_before_check p h d))
        then (checked_register d + 1) mod size_register_cfg h else checked_register d)"
    by blast
  have pos: "0 < size_register_cfg h" using assms by simp
  have "Run p h d = Some d'" using READ r by (simp add: Run_def)
  moreover have "checked_register d' < size_register_cfg h"
    using cr assms pos by simp
  moreover have "checked_register d' = checked_register d \<or>
            checked_register d' = (checked_register d + 1) mod size_register_cfg h"
    using cr by simp
  moreover have "if state d = READ \<and> state d' = READ \<and> health_log d' \<noteq> health_log d
            then checked_register d' = (checked_register d + 1) mod size_register_cfg h
            else checked_register d' = checked_register d"
    using READ hl st cr by (auto split: if_splits)
  ultimately show ?thesis by blast
qed (use assms in \<open>simp_all add: Run_def\<close>)

lemma exec_cursor:
  assumes "checked_register d < size_register_cfg h"
  shows "\<exists>d'. exec p h es d = Some d' \<and> checked_register d' < size_register_cfg h"
  using assms
proof (induction es arbitrary: d)
  case Nil
  then show ?case by simp
next
  case (Cons e es)
  show ?case
  proof (cases e)
    case Invoke_Run
    from Run_cursor_step [OF Cons.prems, of p]
    obtain d1 where "Run p h d = Some d1" and "checked_register d1 < size_register_cfg h"
      by blast
    with Cons.IH [of d1] Invoke_Run show ?thesis by simp
  next
    case Call_Reset
    with Cons.IH [of "Reset d"] Cons.prems show ?thesis by (simp add: Reset_def)
  next
    case Call_Stop_request
    with Cons.IH [of "Stop_request d"] Cons.prems show ?thesis by (simp add: Stop_request_def)
  qed
qed

text \<open>The last two branches, and a stop request followed by one invocation.\<close>

lemma Run_REQUEST_STOP:
  "state d = REQUEST_STOP \<Longrightarrow>
     Run p h d = Some (d\<lparr>state := STOPPED, sched_log := sched_log d @ [ScheduleClear]\<rparr>)"
  by (simp add: Run_def schedule_def)

lemma Run_STOPPED: "state d = STOPPED \<Longrightarrow> Run p h d = Some d"
  by (simp add: Run_def)

lemma Stop_request_Run:
  "Run p h (Stop_request d) =
     Some (d\<lparr>state := STOPPED, sched_log := sched_log d @ [ScheduleNow, ScheduleClear]\<rparr>)"
  by (simp add: Run_def Stop_request_def schedule_def)

subsection \<open>The bytes of a sample, and the order of the health checks\<close>

lemma combine_bit:
  "bit (combine msb lsb) n = (if n < 8 then bit lsb n else n < 16 \<and> bit msb (n - 8))"
  using bit_imp_le_length [of lsb n]
  by (auto simp add: combine_def bit_word_of_int_iff bit_or_iff bit_push_bit_iff bit_uint_iff)

lemma combine_low: "ucast (combine msb lsb) = lsb"
  by (rule bit_word_eqI) (simp add: bit_ucast_iff combine_bit)

lemma combine_high: "ucast (drop_bit 8 (combine msb lsb)) = msb"
  by (rule bit_word_eqI) (simp add: bit_ucast_iff bit_drop_bit_eq combine_bit)

lemma checks_due_le: "checks_due p h k d \<le> k"
  by (induction k arbitrary: d) (auto split: option.splits intro: le_SucI)

lemma stays_READ_state: "stays_READ p h k d \<Longrightarrow> state d = READ"
  by (cases k) simp_all

lemma round_robin_Suc:
  assumes "c < n"
  shows "round_robin n c (Suc m) = c # round_robin n ((c + 1) mod n) m"
proof -
  have "map (\<lambda>i. (c + i) mod n) [0..<Suc m] = (c + 0) mod n # map (\<lambda>i. (c + Suc i) mod n) [0..<m]"
    by (simp only: upt_conv_Cons [of 0 "Suc m"] map_Suc_upt [symmetric] list.map map_map comp_def)
  moreover have "(c + Suc i) mod n = ((c + 1) mod n + i) mod n" for i
    by (simp add: mod_add_left_eq)
  ultimately show ?thesis using assms by (simp add: round_robin_def)
qed

lemma READ_due_iff:
  "READ_due p h d =
     (\<not> fst (READ_answer p h d) \<or>
      fst (clock p (env (snd (READ_sample p h d)))) - last_config_check_timestamp d > 100000)"
  by (simp add: READ_due_def check_due_def READ_sample_results hrt_elapsed_time_def
        hrt_absolute_time_def case_prod_beta ms_def)

lemma Run_n_round_robin:
  assumes "stays_READ p h k d" and "checked_register d < size_register_cfg h"
  shows "\<exists>d'. Run_n p h k d = Some d' \<and> state d' = READ \<and>
           health_log d' = health_log d @ round_robin (size_register_cfg h) (checked_register d) (checks_due p h k d) \<and>
           checked_register d' = (checked_register d + checks_due p h k d) mod size_register_cfg h"
  using assms
proof (induction k arbitrary: d)
  case 0
  then show ?case by (simp add: round_robin_def)
next
  case (Suc k)
  let ?n = "size_register_cfg h" and ?c = "checked_register d"
  from Suc.prems have st: "state d = READ" by simp
  from Run_READ_cursor [OF Suc.prems(2) st, of p]
  obtain d1 where r: "Run_READ p h d = Some d1"
     and hl: "health_log d1 = health_log d @ (if READ_due p h d then [?c] else [])"
     and s1: "state d1 = (if READ_due p h d \<and>
                    \<not> fst (RegisterCheck p h (register_cfg h ! ?c) True (READ_before_check p h d))
                 then CONFIGURE else READ)"
     and cr: "checked_register d1 =
       (if READ_due p h d \<and>
           fst (RegisterCheck p h (register_cfg h ! ?c) True (READ_before_check p h d))
        then (?c + 1) mod ?n else ?c)"
    by blast
  have run: "Run p h d = Some d1" using st r by (simp add: Run_def)
  with Suc.prems have stay1: "stays_READ p h k d1" by simp
  then have read1: "state d1 = READ" by (rule stays_READ_state)
  have pos: "0 < ?n" using Suc.prems(2) by simp
  have c1: "checked_register d1 < ?n" using cr Suc.prems(2) pos by simp
  from Suc.IH [OF stay1 c1]
  obtain d' where n: "Run_n p h k d1 = Some d'" and sd: "state d' = READ"
     and hl': "health_log d' = health_log d1 @ round_robin ?n (checked_register d1) (checks_due p h k d1)"
     and cr': "checked_register d' = (checked_register d1 + checks_due p h k d1) mod ?n"
    by blast
  show ?case
  proof (cases "READ_due p h d")
    case True
    with s1 read1 have ok: "fst (RegisterCheck p h (register_cfg h ! ?c) True (READ_before_check p h d))"
      by (auto split: if_splits)
    with True cr have cr1: "checked_register d1 = (?c + 1) mod ?n" by simp
    have "health_log d' = health_log d @ round_robin ?n ?c (Suc (checks_due p h k d1))"
      using hl' hl True cr1 round_robin_Suc [OF Suc.prems(2)] by simp
    moreover have "checked_register d' = (?c + Suc (checks_due p h k d1)) mod ?n"
      using cr' cr1 by (simp add: mod_add_left_eq)
    ultimately show ?thesis using run n sd True by simp
  next
    case False
    with cr hl have "checked_register d1 = ?c" "health_log d1 = health_log d" by simp_all
    with hl' cr' run n sd False show ?thesis by simp
  qed
qed

lemma round_robin_window:
  assumes "0 < n" and "i + n \<le> m"
  shows "distinct (take n (drop i (round_robin n c m))) \<and>
         set (take n (drop i (round_robin n c m))) = {0..<n}"
proof -
  let ?f = "\<lambda>j. (c + j) mod n"
  have w: "take n (drop i (round_robin n c m)) = map ?f [i..<i + n]"
  proof -
    have "drop i (round_robin n c m) = map ?f [i..<m]"
      by (simp add: round_robin_def drop_map drop_upt)
    moreover have "take n [i..<m] = [i..<i + n]"
      using assms(2) by (simp add: take_upt)
    ultimately show ?thesis by (simp add: take_map)
  qed
  have less: "x = y" if "x \<le> y" and "y < x + n" and "?f x = ?f y" for x y
  proof -
    have "c + x \<le> c + y" using that(1) by simp
    with that(3) have "n dvd (c + y) - (c + x)"
      using mod_eq_dvd_iff_nat [of "c + x" "c + y" n] by simp
    then have "n dvd y - x" by simp
    moreover have "y - x < n" using that(1,2) by simp
    ultimately have "y - x = 0" using nat_dvd_not_less by fastforce
    with that(1) show ?thesis by simp
  qed
  have inj: "inj_on ?f {i..<i + n}"
  proof (rule inj_onI)
    fix x y assume x: "x \<in> {i..<i + n}" and y: "y \<in> {i..<i + n}" and e: "?f x = ?f y"
    show "x = y"
    proof (cases "x \<le> y")
      case True
      with x y e less [of x y] show ?thesis by simp
    next
      case False
      with x y e less [of y x] show ?thesis by simp
    qed
  qed
  have d: "distinct (map ?f [i..<i + n])"
    using inj by (simp add: distinct_map)
  have sub: "?f ` {i..<i + n} \<subseteq> {0..<n}" using assms(1) by auto
  have "card (?f ` {i..<i + n}) = n" using inj by (simp add: card_image)
  with sub have "?f ` {i..<i + n} = {0..<n}"
    by (simp add: card_subset_eq)
  with d w show ?thesis by simp
qed

section \<open>The claims\<close>

text \<open>
  Unfolding the whole driver and the simulated device, to run the examples.
\<close>

lemmas sim_defs = sim_driver_def sim_platform_def sim_header_def sim_env_def regs_drifted_def
  regs_good_def regs_suspended_def sample_buffer_def

lemmas run_defs = Run_def Run_READ_def READ_sample_def check_due_def Run_CONFIGURE_def Configure_def
  Run_WAIT_FOR_RESET_def reset_complete_def Run_RESET_def
  hrt_absolute_time_def hrt_elapsed_time_def combine_def sink_def schedule_def ms_def size_register_cfg_def
  RegisterCheck_def RegisterRead_def RegisterWrite_def RegisterSetAndClearBits_def RegisterSetBits_def
  READ_due_def READ_before_check_def READ_answer_def READ_timestamp_def zero_buffer_def verifies_def Let_def

text \<open>
  Claim C2. In the CONFIGURE state the step function runs \<^verbatim>\<open>Configure\<close>. If
  \<^verbatim>\<open>RegisterCheck\<close> answers true for every entry of the table on this pass, the state
  becomes READ and the one scheduler call is \<^verbatim>\<open>ScheduleOnInterval(20_ms, 20_ms)\<close>; if it
  answers false for some entry, the state stays CONFIGURE and the one scheduler call is
  \<^verbatim>\<open>ScheduleDelayed(50_ms)\<close>, so the table is verified again at the next invocation.
\<close>

theorem Run_CONFIGURE_transition:
  assumes "state d = CONFIGURE"
  shows "\<exists>d'. Run p h d = Some d' \<and>
           (if list_all (\<lambda>b. b) (pass_verdicts p h (register_cfg h) d)
            then state d' = READ \<and> sched_log d' = sched_log d @ [ScheduleOnInterval 20000 20000]
            else state d' = CONFIGURE \<and> sched_log d' = sched_log d @ [ScheduleDelayed 50000])"
  using assms
  by (simp add: Run_def Run_CONFIGURE_eq Configure_fst schedule_def ms_def)

text \<open>
  The theorem of C2 at the simulated device: once with the registers as the table wants
  them, once with register \<open>0x30\<close> lost.
\<close>

theorem Run_CONFIGURE_transition_witness:
  "state (sim_driver CONFIGURE (sim_env regs_good True 1)) = CONFIGURE \<and>
   map_option (\<lambda>d. (state d, sched_log d)) (Run sim_platform sim_header (sim_driver CONFIGURE (sim_env regs_good True 1)))
     = Some (READ, [ScheduleOnInterval 20000 20000]) \<and>
   state (sim_driver CONFIGURE (sim_env regs_drifted True 1)) = CONFIGURE \<and>
   map_option (\<lambda>d. (state d, sched_log d)) (Run sim_platform sim_header (sim_driver CONFIGURE (sim_env regs_drifted True 1)))
     = Some (CONFIGURE, [ScheduleDelayed 50000])"
  using Run_CONFIGURE_transition [of "sim_driver CONFIGURE (sim_env regs_good True 1)" sim_platform sim_header]
    Run_CONFIGURE_transition [of "sim_driver CONFIGURE (sim_env regs_drifted True 1)" sim_platform sim_header]
  by (simp add: sim_defs run_defs)

text \<open>
  Claim C3. In the READ state, when the check of the entry under the cursor is made and
  \<^verbatim>\<open>RegisterCheck\<close> answers false, the same invocation stores CONFIGURE and calls
  \<^verbatim>\<open>ScheduleNow\<close>, and nothing else on the scheduler; the cursor and the time of the last
  check stay as they were.
\<close>

theorem Run_READ_failed_check_reconfigures:
  assumes "state d = READ" and "checked_register d < size_register_cfg h"
    and "READ_due p h d"
    and "\<not> fst (RegisterCheck p h (register_cfg h ! checked_register d) True (READ_before_check p h d))"
  shows "\<exists>d'. Run p h d = Some d' \<and> state d' = CONFIGURE \<and> sched_log d' = sched_log d @ [ScheduleNow] \<and>
           checked_register d' = checked_register d \<and>
           last_config_check_timestamp d' = last_config_check_timestamp d \<and>
           health_log d' = health_log d @ [checked_register d]"
  using assms by (simp add: Run_def Run_READ_eq Let_def)

text \<open>
  The theorem of C3 at the simulated device, register \<open>0x20\<close> holding the bit that the
  first entry wants clear.
\<close>

theorem Run_READ_failed_check_reconfigures_witness:
  "state (sim_driver READ (sim_env regs_suspended True 1)) = READ \<and>
   checked_register (sim_driver READ (sim_env regs_suspended True 1)) < size_register_cfg sim_header \<and>
   READ_due sim_platform sim_header (sim_driver READ (sim_env regs_suspended True 1)) \<and>
   \<not> fst (RegisterCheck sim_platform sim_header
            (register_cfg sim_header ! checked_register (sim_driver READ (sim_env regs_suspended True 1))) True
            (READ_before_check sim_platform sim_header (sim_driver READ (sim_env regs_suspended True 1)))) \<and>
   map_option (\<lambda>d. (state d, sched_log d, checked_register d, health_log d))
      (Run sim_platform sim_header (sim_driver READ (sim_env regs_suspended True 1)))
     = Some (CONFIGURE, [ScheduleNow], 0, [0])"
  using Run_READ_failed_check_reconfigures [of "sim_driver READ (sim_env regs_suspended True 1)" sim_header sim_platform]
  by (simp add: sim_defs run_defs)

text \<open>
  Claim C5. In the WAIT_FOR_RESET state the step function reads the identity register and,
  when it matches, the reset bit. Identity right and reset bit clear: the state becomes
  CONFIGURE and the scheduler call is \<^verbatim>\<open>ScheduleNow\<close>. Otherwise, more than 100 ms after
  \<^verbatim>\<open>_reset_timestamp\<close>: the state becomes RESET and the call is \<^verbatim>\<open>ScheduleNow\<close>.
  Otherwise the state stays WAIT_FOR_RESET and the call is \<^verbatim>\<open>ScheduleDelayed(50_ms)\<close>.
  Every case returns a driver: there is no state of failure.
\<close>

theorem Run_WAIT_FOR_RESET_cases:
  assumes "state d = WAIT_FOR_RESET"
  shows "let wai = fst (RegisterRead p h (Register_WAI h) d);
             d1 = snd (RegisterRead p h (Register_WAI h) d);
             cntl3 = fst (RegisterRead p h (Register_CNTL3 h) d1);
             d2 = (if wai = Device_ID h then snd (RegisterRead p h (Register_CNTL3 h) d1) else d1);
             elapsed = fst (clock p (env d2)) - reset_timestamp d
         in \<exists>d'. Run p h d = Some d' \<and>
              (if wai = Device_ID h \<and> cntl3 AND CNTL3_BIT_SRST h = 0
               then state d' = CONFIGURE \<and> sched_log d' = sched_log d @ [ScheduleNow]
               else if elapsed > 100000
                    then state d' = RESET \<and> sched_log d' = sched_log d @ [ScheduleNow]
                    else state d' = WAIT_FOR_RESET \<and> sched_log d' = sched_log d @ [ScheduleDelayed 50000])"
proof -
  have el: "fst (hrt_elapsed_time p t x) = fst (clock p (env x)) - t" for t and x :: "'a IST8308"
    by (simp add: hrt_elapsed_time_def hrt_absolute_time_def case_prod_beta)
  show ?thesis
    using assms
    by (simp add: Run_def Run_WAIT_FOR_RESET_eq Let_def reset_complete_fst reset_complete_snd el)
qed

text \<open>
  The theorem of C5 at the simulated device: the reset done; the identity wrong a second
  after the reset; the identity wrong 50 ms after the reset.
\<close>

theorem Run_WAIT_FOR_RESET_cases_witness:
  "state (sim_driver WAIT_FOR_RESET (sim_env regs_good True 1)) = WAIT_FOR_RESET \<and>
   map_option (\<lambda>d. (state d, sched_log d))
      (Run sim_platform sim_header (sim_driver WAIT_FOR_RESET (sim_env regs_good True 1)))
     = Some (CONFIGURE, [ScheduleNow]) \<and>
   map_option (\<lambda>d. (state d, sched_log d))
      (Run sim_platform sim_header (sim_driver WAIT_FOR_RESET (sim_env (\<lambda>r. 0) True 1)))
     = Some (RESET, [ScheduleNow]) \<and>
   map_option (\<lambda>d. (state d, sched_log d))
      (Run sim_platform sim_header
         ((sim_driver WAIT_FOR_RESET (sim_env (\<lambda>r. 0) True 1))\<lparr>reset_timestamp := 950000\<rparr>))
     = Some (WAIT_FOR_RESET, [ScheduleDelayed 50000])"
  using Run_WAIT_FOR_RESET_cases [of "sim_driver WAIT_FOR_RESET (sim_env regs_good True 1)" sim_platform sim_header]
    Run_WAIT_FOR_RESET_cases [of "sim_driver WAIT_FOR_RESET (sim_env (\<lambda>r. 0) True 1)" sim_platform sim_header]
    Run_WAIT_FOR_RESET_cases [of "(sim_driver WAIT_FOR_RESET (sim_env (\<lambda>r. 0) True 1))\<lparr>reset_timestamp := 950000\<rparr>" sim_platform sim_header]
  by (simp add: sim_defs run_defs)

text \<open>
  Claim C7. \<^verbatim>\<open>RegisterCheck\<close> answers what the two tests say of the value it has just
  read. For an entry that fails them it answers false, and its bus traffic is exactly the
  verifying read, one more read of the register, and one write of
  (the value just read OR \<open>set_bits\<close>) AND NOT \<open>clear_bits\<close>; for an entry that passes, the
  verifying read alone. So the corrected value counts only when a later call reads it
  back.
\<close>

theorem RegisterCheck_corrects_once:
  "fst (RegisterCheck p h c n d) = verifies c (fst (RegisterRead p h (reg c) d)) \<and>
   (\<not> verifies c (fst (RegisterRead p h (reg c) d)) \<longrightarrow>
      \<not> fst (RegisterCheck p h c n d) \<and>
      (let d1 = snd (RegisterRead p h (reg c) d);
           cur = fst (RegisterRead p h (reg c) d1);
           d2 = snd (RegisterRead p h (reg c) d1);
           new = (cur OR set_bits c) AND NOT (clear_bits c)
       in snd (RegisterCheck p h c n d) =
            (let d3 = RegisterWrite p (reg c) new d2
             in if n then d3\<lparr>bad_register_perf := bad_register_perf d3 + 1\<rparr> else d3) \<and>
          bus_log (snd (RegisterCheck p h c n d)) = bus_log d
            @ [Exchange (reg c OR DIR_READ h, 0) (fst (transfer_exchange p (env d) (reg c OR DIR_READ h, 0))),
               Exchange (reg c OR DIR_READ h, 0) (fst (transfer_exchange p (env d1) (reg c OR DIR_READ h, 0))),
               Exchange (reg c, new) (fst (transfer_exchange p (env d2) (reg c, new)))] \<and>
          cur = snd (fst (transfer_exchange p (env d1) (reg c OR DIR_READ h, 0))))) \<and>
   (verifies c (fst (RegisterRead p h (reg c) d)) \<longrightarrow>
      bus_log (snd (RegisterCheck p h c n d)) =
        bus_log d @ [Exchange (reg c OR DIR_READ h, 0) (fst (transfer_exchange p (env d) (reg c OR DIR_READ h, 0)))])"
proof (intro conjI impI)
  show "fst (RegisterCheck p h c n d) = verifies c (fst (RegisterRead p h (reg c) d))"
    by (rule RegisterCheck_fst)
next
  assume f: "\<not> verifies c (fst (RegisterRead p h (reg c) d))"
  then show "\<not> fst (RegisterCheck p h c n d)"
    by (simp add: RegisterCheck_fst)
  show "let d1 = snd (RegisterRead p h (reg c) d);
           cur = fst (RegisterRead p h (reg c) d1);
           d2 = snd (RegisterRead p h (reg c) d1);
           new = (cur OR set_bits c) AND NOT (clear_bits c)
       in snd (RegisterCheck p h c n d) =
            (let d3 = RegisterWrite p (reg c) new d2
             in if n then d3\<lparr>bad_register_perf := bad_register_perf d3 + 1\<rparr> else d3) \<and>
          bus_log (snd (RegisterCheck p h c n d)) = bus_log d
            @ [Exchange (reg c OR DIR_READ h, 0) (fst (transfer_exchange p (env d) (reg c OR DIR_READ h, 0))),
               Exchange (reg c OR DIR_READ h, 0) (fst (transfer_exchange p (env d1) (reg c OR DIR_READ h, 0))),
               Exchange (reg c, new) (fst (transfer_exchange p (env d2) (reg c, new)))] \<and>
          cur = snd (fst (transfer_exchange p (env d1) (reg c OR DIR_READ h, 0)))"
    using RegisterCheck_bus_log_failed [OF f, of n] f
    by (simp add: Let_def RegisterCheck_snd RegisterSetAndClearBits_eq RegisterRead_bus_log)
next
  assume "verifies c (fst (RegisterRead p h (reg c) d))"
  then show "bus_log (snd (RegisterCheck p h c n d)) =
        bus_log d @ [Exchange (reg c OR DIR_READ h, 0) (fst (transfer_exchange p (env d) (reg c OR DIR_READ h, 0)))]"
    by (rule RegisterCheck_bus_log_passed)
qed

text \<open>
  The theorem of C7 at the simulated device: a register reading \<open>0x07\<close> against an
  entry that wants \<open>0x20\<close> set and \<open>0x04\<close> clear is written back as \<open>0x23\<close>, and a
  register reading \<open>0x23\<close> passes.
\<close>

theorem RegisterCheck_corrects_once_witness:
  "\<not> verifies \<lparr>reg = 0x30, set_bits = 0x20, clear_bits = 0x04\<rparr>
       (fst (RegisterRead sim_platform sim_header 0x30 (sim_driver CONFIGURE (sim_env (\<lambda>r. 0x07) True 1)))) \<and>
   \<not> fst (RegisterCheck sim_platform sim_header \<lparr>reg = 0x30, set_bits = 0x20, clear_bits = 0x04\<rparr> True
            (sim_driver CONFIGURE (sim_env (\<lambda>r. 0x07) True 1))) \<and>
   bus_log (snd (RegisterCheck sim_platform sim_header \<lparr>reg = 0x30, set_bits = 0x20, clear_bits = 0x04\<rparr> True
            (sim_driver CONFIGURE (sim_env (\<lambda>r. 0x07) True 1))))
     = [Exchange (0xB0, 0) (0xB0, 0x07), Exchange (0xB0, 0) (0xB0, 0x07), Exchange (0x30, 0x23) (0x30, 0x23)] \<and>
   verifies \<lparr>reg = 0x30, set_bits = 0x20, clear_bits = 0x04\<rparr>
       (fst (RegisterRead sim_platform sim_header 0x30 (sim_driver CONFIGURE (sim_env (\<lambda>r. 0x23) True 1)))) \<and>
   bus_log (snd (RegisterCheck sim_platform sim_header \<lparr>reg = 0x30, set_bits = 0x20, clear_bits = 0x04\<rparr> True
            (sim_driver CONFIGURE (sim_env (\<lambda>r. 0x23) True 1))))
     = [Exchange (0xB0, 0) (0xB0, 0x23)]"
  using RegisterCheck_corrects_once [of sim_platform sim_header "\<lparr>reg = 0x30, set_bits = 0x20, clear_bits = 0x04\<rparr>" True
           "sim_driver CONFIGURE (sim_env (\<lambda>r. 0x07) True 1)"]
     RegisterCheck_corrects_once [of sim_platform sim_header "\<lparr>reg = 0x30, set_bits = 0x20, clear_bits = 0x04\<rparr>" True
           "sim_driver CONFIGURE (sim_env (\<lambda>r. 0x23) True 1)"]
  by (simp add: sim_defs run_defs)

text \<open>
  Claim C4, as the code has it. While the driver stays in READ, the indices handed to the
  health check are the cursor's value at the start, then the next, and so on, wrapping at
  the table length: one index for each invocation on which the check is due, none for
  the others. The check is due when the transfer failed, or when more than 100 ms lie
  between \<^verbatim>\<open>_last_config_check_timestamp\<close> and the clock; so the count of checks in \<open>k\<close>
  invocations is \<open>checks_due\<close>, at most \<open>k\<close>. Any run of table-length many checks in a
  row visits every entry exactly once.
\<close>

theorem READ_cursor_round_robin:
  assumes "stays_READ p h k d" and "checked_register d < size_register_cfg h"
  shows "\<exists>d'. Run_n p h k d = Some d' \<and>
           health_log d' = health_log d
              @ round_robin (size_register_cfg h) (checked_register d) (checks_due p h k d) \<and>
           checked_register d' = (checked_register d + checks_due p h k d) mod size_register_cfg h \<and>
           checks_due p h k d \<le> k \<and>
           (\<forall>i. i + size_register_cfg h \<le> checks_due p h k d \<longrightarrow>
              distinct (take (size_register_cfg h)
                 (drop i (round_robin (size_register_cfg h) (checked_register d) (checks_due p h k d)))) \<and>
              set (take (size_register_cfg h)
                 (drop i (round_robin (size_register_cfg h) (checked_register d) (checks_due p h k d))))
                = {0..<size_register_cfg h}) \<and>
           (READ_due p h d \<longleftrightarrow>
              \<not> fst (READ_answer p h d) \<or>
              fst (clock p (env (snd (READ_sample p h d)))) - last_config_check_timestamp d > 100000)"
proof -
  have pos: "0 < size_register_cfg h" using assms(2) by simp
  from Run_n_round_robin [OF assms]
  obtain d' where "Run_n p h k d = Some d'"
    and "health_log d' = health_log d
              @ round_robin (size_register_cfg h) (checked_register d) (checks_due p h k d)"
    and "checked_register d' = (checked_register d + checks_due p h k d) mod size_register_cfg h"
    by blast
  then show ?thesis
    using checks_due_le [of p h k d] round_robin_window [OF pos] READ_due_iff [of p h d]
    by simp
qed

text \<open>
  The theorem of C4 at the simulated device with a failing transfer, so that every
  invocation checks: three invocations on a table of two entries visit 0, 1, 0.
\<close>

theorem READ_cursor_round_robin_witness:
  "stays_READ sim_platform sim_header (Suc (Suc (Suc 0))) (sim_driver READ (sim_env regs_good False 1)) \<and>
   checked_register (sim_driver READ (sim_env regs_good False 1)) < size_register_cfg sim_header \<and>
   checks_due sim_platform sim_header (Suc (Suc (Suc 0))) (sim_driver READ (sim_env regs_good False 1)) = 3 \<and>
   map_option (\<lambda>d. (health_log d, checked_register d))
      (Run_n sim_platform sim_header (Suc (Suc (Suc 0))) (sim_driver READ (sim_env regs_good False 1))) = Some ([0, 1, 0], 1)"
  using READ_cursor_round_robin [of sim_platform sim_header "Suc (Suc (Suc 0))" "sim_driver READ (sim_env regs_good False 1)"]
  by (simp add: sim_defs run_defs round_robin_def)

text \<open>
  Claim C4 as stated fails: with the transfer succeeding, a table of two entries and two
  sampling cycles in a row, the first cycle checks entry 0 and the second, 20 ms after, is
  not yet due; entry 1 is not visited in these two cycles.
\<close>

theorem sampling_cycles_without_check:
  "stays_READ sim_platform sim_header (Suc (Suc 0)) (sim_driver READ (sim_env regs_good True 1)) \<and>
   checked_register (sim_driver READ (sim_env regs_good True 1)) = 0 \<and>
   size_register_cfg sim_header = 2 \<and>
   map_option health_log (Run_n sim_platform sim_header (Suc (Suc 0)) (sim_driver READ (sim_env regs_good True 1))) = Some [0] \<and>
   map_option health_log (Run_n sim_platform sim_header (Suc (Suc 0)) (sim_driver READ (sim_env regs_good True 1))) \<noteq> Some [0, 1]"
  by (simp add: sim_defs run_defs)

text \<open>
  Claim C9. From a cursor below the table length, every invocation of the step function
  returns (the index into the table is in bounds) with the cursor below the table
  length, either unchanged or one further modulo the table length; it is one further
  exactly when the invocation was in READ, made a check, and stayed in READ, that is,
  when the check succeeded. The same bound holds after any sequence of invocations,
  calls of \<^verbatim>\<open>Reset\<close> and stop requests.
\<close>

theorem checked_register_in_bounds:
  assumes "checked_register d < size_register_cfg h"
  shows "(\<exists>d'. Run p h d = Some d' \<and> checked_register d' < size_register_cfg h \<and>
            (checked_register d' = checked_register d \<or>
             checked_register d' = (checked_register d + 1) mod size_register_cfg h) \<and>
            (if state d = READ \<and> state d' = READ \<and> health_log d' \<noteq> health_log d
             then checked_register d' = (checked_register d + 1) mod size_register_cfg h
             else checked_register d' = checked_register d)) \<and>
         (\<exists>d'. exec p h es d = Some d' \<and> checked_register d' < size_register_cfg h)"
  using Run_cursor_step [OF assms, of p] exec_cursor [OF assms, of p es] by simp

text \<open>
  The theorem of C9 at the simulated device: one invocation in READ moves the cursor from
  0 to 1, and it is still 1 after a stop request, a reset and the invocations between.
\<close>

theorem checked_register_in_bounds_witness:
  "checked_register (sim_driver READ (sim_env regs_good True 1)) < size_register_cfg sim_header \<and>
   map_option checked_register (Run sim_platform sim_header (sim_driver READ (sim_env regs_good True 1))) = Some 1 \<and>
   map_option (\<lambda>d. (state d, checked_register d))
     (exec sim_platform sim_header [Invoke_Run, Call_Stop_request, Invoke_Run, Call_Reset, Invoke_Run]
        (sim_driver READ (sim_env regs_good True 1))) = Some (WAIT_FOR_RESET, 1)"
  using checked_register_in_bounds [of "sim_driver READ (sim_env regs_good True 1)" sim_header sim_platform
     "[Invoke_Run, Call_Stop_request, Invoke_Run, Call_Reset, Invoke_Run]"]
  by (simp add: sim_defs run_defs Reset_def Stop_request_def)

text \<open>
  Claim C10. In the READ state, what goes to the sink is a function of the status byte and
  the data bytes left in the buffer and of the timestamp; whether the transfer reported
  success does not enter. A failed transfer adds one to the count of bad transfers and
  makes the health check due, and the sample is forwarded all the same when the status
  byte and the mask are both non-zero.
\<close>

theorem READ_forwards_whatever_the_transfer:
  assumes "state d = READ" and "checked_register d < size_register_cfg h"
  shows "\<exists>d'. Run p h d = Some d' \<and>
           px4_mag d' = px4_mag d @
             (if STAT (snd (READ_answer p h d)) \<noteq> 0 \<and> STAT_BIT_DRDY h \<noteq> 0
              then [Update (READ_timestamp p d)
                      (real_of_int (sint (combine (DATAXH (snd (READ_answer p h d))) (DATAXL (snd (READ_answer p h d))))))
                      (real_of_int (sint (combine (DATAYH (snd (READ_answer p h d))) (DATAYL (snd (READ_answer p h d))))))
                      (real_of_int (sint (combine (DATAZH (snd (READ_answer p h d))) (DATAZL (snd (READ_answer p h d))))))]
              else []) \<and>
           bad_transfer_perf d' = bad_transfer_perf d + (if fst (READ_answer p h d) then 0 else 1) \<and>
           (\<not> fst (READ_answer p h d) \<longrightarrow>
              READ_due p h d \<and> health_log d' = health_log d @ [checked_register d])"
proof -
  have due: "READ_due p h d" if "\<not> fst (READ_answer p h d)"
    using that by (simp add: READ_due_iff)
  show ?thesis
    using assms due
    by (auto simp add: Run_def Run_READ_eq Let_def READ_sample_px4_mag READ_sample_results)
qed

text \<open>
  The theorem of C10 at the simulated device: the transfer fails and leaves a buffer with
  a status byte of 1; the sample goes to the sink as it does when the transfer succeeds.
\<close>

theorem READ_forwards_whatever_the_transfer_witness:
  "state (sim_driver READ (sim_env regs_good False 1)) = READ \<and>
   checked_register (sim_driver READ (sim_env regs_good False 1)) < size_register_cfg sim_header \<and>
   \<not> fst (READ_answer sim_platform sim_header (sim_driver READ (sim_env regs_good False 1))) \<and>
   map_option (\<lambda>d. (px4_mag d, bad_transfer_perf d, health_log d))
      (Run sim_platform sim_header (sim_driver READ (sim_env regs_good False 1)))
     = Some ([Update 1000000 258 (- 1) (- 32768)], 1, [0]) \<and>
   map_option (\<lambda>d. (px4_mag d, bad_transfer_perf d))
      (Run sim_platform sim_header (sim_driver READ (sim_env regs_good True 1)))
     = Some ([Update 1000000 258 (- 1) (- 32768)], 0)"
  using READ_forwards_whatever_the_transfer [of "sim_driver READ (sim_env regs_good False 1)" sim_header sim_platform]
  by (simp add: sim_defs run_defs)

text \<open>
  Claim C1 against the code. The status byte is \<open>0x02\<close> and the data-ready mask is
  \<open>0x01\<close>: the masked bit is clear, and the sample is forwarded. The source tests
  \<^verbatim>\<open>buffer.STAT && STAT_BIT::DRDY\<close>, which holds for every non-zero status byte.
\<close>

theorem READ_forwards_without_DRDY:
  "STAT (sample_buffer 0x02) AND STAT_BIT_DRDY sim_header = 0 \<and>
   READ_answer sim_platform sim_header (sim_driver READ (sim_env regs_good True 0x02)) = (True, sample_buffer 0x02) \<and>
   map_option px4_mag (Run sim_platform sim_header (sim_driver READ (sim_env regs_good True 0x02)))
     = Some [Update 1000000 258 (- 1) (- 32768)]"
  by (simp add: sim_defs run_defs)

text \<open>
  Claim C8, as the code has it. The value of \<^verbatim>\<open>combine\<close> has the first argument as its
  high byte and the second as its low byte, read as a signed 16-bit integer; bytes
  \<open>0x01\<close> and \<open>0x02\<close> give \<open>0x0102\<close>. The READ branch hands the three values to the sink as
  they are; the scale is handed to the sink by \<^verbatim>\<open>Configure\<close>, in a call of its own.
\<close>

theorem combine_bytes_forwarded_unscaled:
  assumes "state d = READ" and "checked_register d < size_register_cfg h"
    and "STAT (snd (READ_answer p h d)) \<noteq> 0" and "STAT_BIT_DRDY h \<noteq> 0"
  shows "ucast (drop_bit 8 (combine msb lsb)) = msb \<and> ucast (combine msb lsb) = lsb \<and>
         sint (combine 0x01 0x02) = 0x0102 \<and>
         (\<exists>d'. Run p h d = Some d' \<and>
            px4_mag d' = px4_mag d @
              [Update (READ_timestamp p d)
                 (real_of_int (sint (combine (DATAXH (snd (READ_answer p h d))) (DATAXL (snd (READ_answer p h d))))))
                 (real_of_int (sint (combine (DATAYH (snd (READ_answer p h d))) (DATAYL (snd (READ_answer p h d))))))
                 (real_of_int (sint (combine (DATAZH (snd (READ_answer p h d))) (DATAZL (snd (READ_answer p h d))))))]) \<and>
         px4_mag (snd (Configure p h d)) = px4_mag d @ [Set_scale mag_scale, Set_temperature_NAN]"
proof -
  have "sint (combine 0x01 0x02) = 0x0102" by (simp add: combine_def)
  moreover have "\<exists>d'. Run p h d = Some d' \<and>
            px4_mag d' = px4_mag d @
              [Update (READ_timestamp p d)
                 (real_of_int (sint (combine (DATAXH (snd (READ_answer p h d))) (DATAXL (snd (READ_answer p h d))))))
                 (real_of_int (sint (combine (DATAYH (snd (READ_answer p h d))) (DATAYL (snd (READ_answer p h d))))))
                 (real_of_int (sint (combine (DATAZH (snd (READ_answer p h d))) (DATAZL (snd (READ_answer p h d))))))]"
    using assms by (auto simp add: Run_def Run_READ_eq Let_def READ_sample_px4_mag)
  ultimately show ?thesis
    using combine_high [of msb lsb] combine_low [of msb lsb] Configure_px4_mag [of p h d] by simp
qed

text \<open>
  The theorem of C8 at the simulated device, and at the bytes \<open>0x80\<close>, \<open>0x00\<close>, which
  give the least 16-bit integer.
\<close>

theorem combine_bytes_forwarded_unscaled_witness:
  "state (sim_driver READ (sim_env regs_good True 1)) = READ \<and>
   checked_register (sim_driver READ (sim_env regs_good True 1)) < size_register_cfg sim_header \<and>
   STAT (snd (READ_answer sim_platform sim_header (sim_driver READ (sim_env regs_good True 1)))) \<noteq> 0 \<and>
   STAT_BIT_DRDY sim_header \<noteq> 0 \<and>
   ucast (drop_bit 8 (combine 0x80 0x00)) = (0x80 :: u8) \<and> sint (combine 0x80 0x00) = - 32768 \<and>
   map_option px4_mag (Run sim_platform sim_header (sim_driver READ (sim_env regs_good True 1)))
     = Some [Update 1000000 258 (- 1) (- 32768)] \<and>
   px4_mag (snd (Configure sim_platform sim_header (sim_driver CONFIGURE (sim_env regs_good True 1))))
     = [Set_scale mag_scale, Set_temperature_NAN]"
  using combine_bytes_forwarded_unscaled [of "sim_driver READ (sim_env regs_good True 1)" sim_header sim_platform "0x80" "0x00"]
    Configure_px4_mag [of sim_platform sim_header "sim_driver CONFIGURE (sim_env regs_good True 1)"]
  by (simp add: sim_defs run_defs)

text \<open>
  Claim C8 as stated fails: for \<^verbatim>\<open>DATAXH\<close> \<open>0x01\<close> and \<^verbatim>\<open>DATAXL\<close> \<open>0x02\<close> the sink
  receives 258, not 258 times the scale.
\<close>

theorem forwarded_sample_not_scaled:
  "DATAXH (sample_buffer 1) = 0x01 \<and> DATAXL (sample_buffer 1) = 0x02 \<and>
   map_option px4_mag (Run sim_platform sim_header (sim_driver READ (sim_env regs_good True 1)))
     = Some [Update 1000000 258 (- 1) (- 32768)] \<and>
   map_option px4_mag (Run sim_platform sim_header (sim_driver READ (sim_env regs_good True 1)))
     \<noteq> Some [Update 1000000 (258 * mag_scale) (- 1 * mag_scale) (- 32768 * mag_scale)]"
  by (simp add: sim_defs run_defs mag_scale_def)

end
